theory Spec2Isabelle
  imports Complex_Main "HOL-Library.AList"
begin

section \<open>Conventions of the embedding\<close>

text \<open>
  The five scripts of the repository share their code by copy: every extractor is a
  sequence of sections, each one a loop over a list of regular expressions tried with
  \<^verbatim>\<open>re.search\<close> on the header text, and every merger is the same loop over the
  extracted fields followed by the write of a provenance block.

  \<^item> A Python float is modelled by the rational number it stands for (type \<^typ>\<open>rat\<close>),
    so arithmetic is exact and there is no infinity and no NaN.
    \<^verbatim>\<open>round(x, d)\<close> is rounding to \<open>d\<close> decimals, ties to even.
  \<^item> A Python int is an \<^typ>\<open>int\<close>, a str is a \<^typ>\<open>string\<close> of ASCII characters.
  \<^item> The result of \<^verbatim>\<open>re.search(pattern, content)\<close> is an input of the model: for
    a list of patterns the model receives the list of outcomes in the order of the
    patterns, \<open>None\<close> when the pattern does not match and \<open>Some g\<close> with the captured
    group otherwise. A theorem about every list of outcomes is a theorem about every
    header text.
  \<^item> Exceptions are values of type \<open>py_error\<close>.
\<close>

datatype py_error = IndexError | ValueError | TypeError | AttributeError | OSError

subsection \<open>Numbers\<close>

definition py_round :: "nat \<Rightarrow> rat \<Rightarrow> rat" where
  "py_round nd x =
     (let s = 10 ^ nd; y = x * s; f = \<lfloor>y\<rfloor>; d = y - of_int f
      in of_int (if d < 1 / 2 then f
                 else if 1 / 2 < d then f + 1
                 else if even f then f else f + 1) / s)"

text \<open>\<^verbatim>\<open>range(start, stop, 2)\<close>; empty when \<open>stop \<le> start\<close>.\<close>

definition range_step2 :: "int \<Rightarrow> int \<Rightarrow> int list" where
  "range_step2 start stop = map (\<lambda>k. start + 2 * int k) [0..<nat ((stop - start + 1) div 2)]"

text \<open>
  \<^verbatim>\<open>xs[i] = v\<close> on a Python list: a negative index counts from the end, an index out of
  range raises IndexError.
\<close>

definition list_assign :: "'a list \<Rightarrow> int \<Rightarrow> 'a \<Rightarrow> py_error + 'a list" where
  "list_assign xs i v =
     (let n = int (length xs); j = (if i < 0 then n + i else i)
      in if 0 \<le> j \<and> j < n then Inr (xs[nat j := v]) else Inl IndexError)"

text \<open>\<^verbatim>\<open>int(x)\<close> of a float: truncation towards zero.\<close>

definition py_trunc :: "rat \<Rightarrow> int" where
  "py_trunc x = (if 0 \<le> x then \<lfloor>x\<rfloor> else \<lceil>x\<rceil>)"

text \<open>Division of floats; a zero divisor raises ZeroDivisionError.\<close>

definition py_div :: "rat \<Rightarrow> rat \<Rightarrow> rat option" where
  "py_div a b = (if b = 0 then None else Some (a / b))"

subsection \<open>Strings\<close>

definition isspace :: "char \<Rightarrow> bool" where
  "isspace c = (let n = (of_char c :: nat) in (9 \<le> n \<and> n \<le> 13) \<or> (28 \<le> n \<and> n \<le> 32))"

definition isdigit_char :: "char \<Rightarrow> bool" where
  "isdigit_char c = (let n = (of_char c :: nat) in 48 \<le> n \<and> n \<le> 57)"

text \<open>\<^verbatim>\<open>s.isdigit()\<close>: every character is a digit and there is at least one.\<close>

definition isdigit :: "string \<Rightarrow> bool" where
  "isdigit s = (s \<noteq> [] \<and> list_all isdigit_char s)"

definition strip :: "string \<Rightarrow> string" where
  "strip s = rev (dropWhile isspace (rev (dropWhile isspace s)))"

definition upper_char :: "char \<Rightarrow> char" where
  "upper_char c = (let n = (of_char c :: nat) in if 97 \<le> n \<and> n \<le> 122 then char_of (n - 32) else c)"

definition lower_char :: "char \<Rightarrow> char" where
  "lower_char c = (let n = (of_char c :: nat) in if 65 \<le> n \<and> n \<le> 90 then char_of (n + 32) else c)"

definition upper :: "string \<Rightarrow> string" where
  "upper s = map upper_char s"

definition lower :: "string \<Rightarrow> string" where
  "lower s = map lower_char s"

definition startswith :: "string \<Rightarrow> string \<Rightarrow> bool" where
  "startswith s p = (take (length p) s = p)"

text \<open>\<^verbatim>\<open>sub in s\<close> for two strings.\<close>

fun contains :: "string \<Rightarrow> string \<Rightarrow> bool" where
  "contains sub [] = (sub = [])"
| "contains sub (c # cs) = (startswith (c # cs) sub \<or> contains sub cs)"

text \<open>\<^verbatim>\<open>any(pattern in s for pattern in patterns)\<close>.\<close>

definition any_in :: "string list \<Rightarrow> string \<Rightarrow> bool" where
  "any_in patterns s = list_ex (\<lambda>pattern. contains pattern s) patterns"

text \<open>\<^verbatim>\<open>s.split()\<close>: the maximal runs of characters that are not white space.\<close>

fun split_ws :: "string \<Rightarrow> string \<Rightarrow> string list" where
  "split_ws acc [] = (if acc = [] then [] else [rev acc])"
| "split_ws acc (c # cs) =
     (if isspace c then (if acc = [] then split_ws [] cs else rev acc # split_ws [] cs)
      else split_ws (c # acc) cs)"

definition py_split :: "string \<Rightarrow> string list" where
  "py_split s = split_ws [] s"

text \<open>\<^verbatim>\<open>s.split('\n')\<close>.\<close>

fun split_on :: "char \<Rightarrow> string \<Rightarrow> string list" where
  "split_on sep [] = [[]]"
| "split_on sep (c # cs) =
     (if c = sep then [] # split_on sep cs
      else (case split_on sep cs of [] \<Rightarrow> [[c]] | w # ws \<Rightarrow> (c # w) # ws))"

definition digit_char :: "nat \<Rightarrow> char" where
  "digit_char d = char_of (48 + d mod 10)"

definition pad2 :: "nat \<Rightarrow> string" where
  "pad2 n = [digit_char (n div 10), digit_char n]"

definition pad4 :: "nat \<Rightarrow> string" where
  "pad4 n = [digit_char (n div 1000), digit_char (n div 100), digit_char (n div 10), digit_char n]"

definition pad6 :: "nat \<Rightarrow> string" where
  "pad6 n = pad2 (n div 10000) @ pad2 (n div 100) @ pad2 n"

definition digit_value :: "char \<Rightarrow> nat" where
  "digit_value c = of_char c - 48"

definition nat_of_digits :: "string \<Rightarrow> nat" where
  "nat_of_digits s = foldl (\<lambda>n c. 10 * n + digit_value c) 0 s"

text \<open>
  \<^verbatim>\<open>int(s)\<close> on a string of decimal digits. Any other string is taken to raise
  ValueError; Python accepts a few more notations (a sign, surrounding blanks), which the
  scripts never pass to \<^verbatim>\<open>int\<close>.
\<close>

definition py_int :: "string \<Rightarrow> py_error + int" where
  "py_int s = (if isdigit s then Inr (int (nat_of_digits s)) else Inl ValueError)"

subsection \<open>The conversion helpers of the scripts\<close>

text \<open>
  \<^verbatim>\<open>float(s)\<close> is a parameter \<open>pyfloat\<close> of the model: \<open>None\<close> when Python raises
  ValueError, the value otherwise. \<open>decimal_float\<close> is the instance for plain decimal
  notation, the only notation that a capture of \<^verbatim>\<open>[\d.]+\<close> or \<^verbatim>\<open>\d+\<close> can hold.
\<close>

definition decimal_float :: "string \<Rightarrow> rat option" where
  "decimal_float s =
     (let ip = takeWhile isdigit_char s; r = dropWhile isdigit_char s
      in if r = [] then (if ip = [] then None else Some (of_nat (nat_of_digits ip)))
         else if hd r = CHR ''.'' \<and> list_all isdigit_char (tl r) \<and> (ip \<noteq> [] \<or> tl r \<noteq> [])
              then Some (of_nat (nat_of_digits ip) + of_nat (nat_of_digits (tl r)) / 10 ^ length (tl r))
              else None)"

text \<open>
  \<^verbatim>\<open>
  def safe_float(value_str, default=None):
      if not value_str or str(value_str).strip() in ['', '(float)', 'N/A', 'n/a', '?', 'null']:
          return default
      try:
          clean_val = str(value_str).strip().replace('(', '').replace(')', '')
          return float(clean_val)
      except (ValueError, TypeError):
          return default
  \<close>
\<close>

definition safe_float :: "(string \<Rightarrow> rat option) \<Rightarrow> string \<Rightarrow> rat option" where
  "safe_float pyfloat value_str =
     (if value_str = [] \<or>
         strip value_str \<in> set [[], ''(float)'', ''N/A'', ''n/a'', ''?'', ''null'']
      then None
      else pyfloat (filter (\<lambda>c. c \<noteq> CHR ''('' \<and> c \<noteq> CHR '')'') (strip value_str)))"

definition safe_int :: "(string \<Rightarrow> rat option) \<Rightarrow> string \<Rightarrow> int option" where
  "safe_int pyfloat value_str = map_option py_trunc (safe_float pyfloat value_str)"

definition safe_str :: "string \<Rightarrow> string" where
  "safe_str value_str =
     (if value_str = [] then []
      else if strip value_str \<in> set [''(string)'', ''N/A'', ''n/a'', ''?'', ''null'', []] then []
      else strip value_str)"

text \<open>Truth of a float-or-None and of an int-or-None in a condition.\<close>

definition truthy :: "'a::zero option \<Rightarrow> bool" where
  "truthy v = (case v of None \<Rightarrow> False | Some x \<Rightarrow> x \<noteq> 0)"

section \<open>Slice timing (section 4 of the multi-site extractors, section 14 of the targeted one)\<close>

text \<open>
  \<^verbatim>\<open>
  for slice_num in range(1, n_slices + 1, 2): acquisition_order.append(slice_num - 1)
  for slice_num in range(2, n_slices + 1, 2): acquisition_order.append(slice_num - 1)
  \<close>
\<close>

definition acquisition_order :: "int \<Rightarrow> int list" where
  "acquisition_order n_slices =
     map (\<lambda>slice_num. slice_num - 1) (range_step2 1 (n_slices + 1)) @
     map (\<lambda>slice_num. slice_num - 1) (range_step2 2 (n_slices + 1))"

text \<open>
  \<^verbatim>\<open>
  for acq_time_index, slice_index in enumerate(acquisition_order):
      slice_timing[slice_index] = round(acq_time_index * time_per_slice, 6)
  \<close>
\<close>

fun assign_timing :: "rat \<Rightarrow> (nat \<times> int) list \<Rightarrow> rat list \<Rightarrow> py_error + rat list" where
  "assign_timing time_per_slice [] slice_timing = Inr slice_timing"
| "assign_timing time_per_slice ((acq_time_index, slice_index) # rest) slice_timing =
     (case list_assign slice_timing slice_index
             (py_round 6 (of_nat acq_time_index * time_per_slice)) of
        Inl e \<Rightarrow> Inl e
      | Inr slice_timing' \<Rightarrow> assign_timing time_per_slice rest slice_timing')"

definition slice_timing_of :: "rat \<Rightarrow> int \<Rightarrow> py_error + rat list" where
  "slice_timing_of tr n_slices =
     assign_timing (tr / of_int n_slices)
       (List.enumerate 0 (acquisition_order n_slices))
       (replicate (nat n_slices) 0)"

text \<open>
  The guard of the section, \<^verbatim>\<open>if 'RepetitionTime' in bids_fields and n_slices:\<close>.
  The first argument is the value stored under RepetitionTime, if any; the second is the
  variable \<^verbatim>\<open>n_slices\<close>, \<open>None\<close> or an int that is true when it is not zero.
  The result is \<open>None\<close> when the section is skipped.
\<close>

definition slice_timing_section :: "rat option \<Rightarrow> int option \<Rightarrow> (py_error + rat list) option" where
  "slice_timing_section repetition_time n_slices =
     (case (repetition_time, n_slices) of
        (Some tr, Some n) \<Rightarrow> if n \<noteq> 0 then Some (slice_timing_of tr n) else None
      | _ \<Rightarrow> None)"


section \<open>Site detection\<close>

text \<open>
  The dictionary \<^verbatim>\<open>site_info\<close> has a fixed set of keys and is a record here.
  The W6 script adds the key \<^verbatim>\<open>wave\<close>.
\<close>

record site_info =
  version :: string
  tool_version :: string
  site_group :: string
  actual_site :: string
  characteristics :: "string list"
  confidence :: string

record site_info_w6 = site_info +
  wave :: string

text \<open>
  \<^verbatim>\<open>re.search(r'110(\d{3})', exam_name)\<close>: the three digits after the leftmost
  occurrence of 110 that three digits follow. \<^verbatim>\<open>re.search(r'110\d{3}', exam_name)\<close>
  matches at the same place, so it succeeds exactly when this search does.
\<close>

fun search_110 :: "string \<Rightarrow> string option" where
  "search_110 [] = None"
| "search_110 (c # cs) =
     (if startswith (c # cs) ''110'' \<and> isdigit (take 3 (drop 3 (c # cs))) \<and>
         length (take 3 (drop 3 (c # cs))) = 3
      then Some (take 3 (drop 3 (c # cs)))
      else search_110 cs)"

text \<open>
  Method 3 of \<^verbatim>\<open>detect_nesda_site\<close>, the subject number in the examination name.
  \<^verbatim>\<open>
  if examination_match and site_info['actual_site'] == 'unknown':
      exam_name = examination_match.group(1).strip()
      if re.search(r'110\d{3}', exam_name):
          subject_match = re.search(r'110(\d{3})', exam_name)
          if subject_match:
              subject_num = int(subject_match.group(1))
              if subject_num < 500: site_info['actual_site'] = 'Leiden'
              else: site_info['actual_site'] = 'Amsterdam'
              site_info['confidence'] = 'medium'
  \<close>
\<close>

definition site_from_examination :: "string option \<Rightarrow> ('a site_info_scheme) \<Rightarrow> py_error + 'a site_info_scheme" where
  "site_from_examination examination_match si =
     (case examination_match of
        None \<Rightarrow> Inr si
      | Some g \<Rightarrow>
          if actual_site si = ''unknown'' then
            (case search_110 (strip g) of
               None \<Rightarrow> Inr si
             | Some digits \<Rightarrow>
                 (case py_int digits of
                    Inl e \<Rightarrow> Inl e
                  | Inr subject_num \<Rightarrow>
                      Inr (si\<lparr>actual_site := (if subject_num < 500 then ''Leiden'' else ''Amsterdam''),
                              confidence := ''medium''\<rparr>)))
          else Inr si)"

text \<open>Method 1, the patient name; the two scripts differ in the tokens they look for.\<close>

definition site_from_patient :: "string list \<Rightarrow> string list \<Rightarrow> string option \<Rightarrow> ('a site_info_scheme) \<Rightarrow> 'a site_info_scheme" where
  "site_from_patient amsterdam_patterns leiden_patterns patient_match si =
     (case patient_match of
        None \<Rightarrow> si
      | Some g \<Rightarrow>
          (let patient_name = upper (strip g)
           in if any_in amsterdam_patterns patient_name
              then si\<lparr>actual_site := ''Amsterdam'', confidence := ''high''\<rparr>
              else if any_in leiden_patterns patient_name
              then si\<lparr>actual_site := ''Leiden'', confidence := ''high''\<rparr>
              else si))"

text \<open>Method 2, the file path.\<close>

definition site_from_path :: "string \<Rightarrow> ('a site_info_scheme) \<Rightarrow> 'a site_info_scheme" where
  "site_from_path file_path si =
     (if actual_site si = ''unknown'' \<and> file_path \<noteq> [] then
        (let path_upper = upper file_path
         in if any_in [''AMSTERDAM'', ''VUMC'', ''AMS''] path_upper
            then si\<lparr>actual_site := ''Amsterdam'', confidence := ''medium''\<rparr>
            else if any_in [''LEIDEN'', ''LUMC'', ''LEI''] path_upper
            then si\<lparr>actual_site := ''Leiden'', confidence := ''medium''\<rparr>
            else si)
      else si)"

definition site_from_path_w6 :: "string \<Rightarrow> ('a site_info_scheme) \<Rightarrow> 'a site_info_scheme" where
  "site_from_path_w6 file_path si =
     (if actual_site si = ''unknown'' \<and> file_path \<noteq> [] then
        (let path_upper = upper file_path
         in if any_in [''GRONINGEN'', ''GRO''] path_upper
            then si\<lparr>actual_site := ''Groningen'', confidence := ''medium''\<rparr>
            else if any_in [''AMSTERDAM'', ''VUMC'', ''AMS''] path_upper
            then si\<lparr>actual_site := ''Amsterdam'', confidence := ''medium''\<rparr>
            else if any_in [''LEIDEN'', ''LUMC'', ''LEI''] path_upper
            then si\<lparr>actual_site := ''Leiden'', confidence := ''medium''\<rparr>
            else si)
      else si)"

text \<open>The default of the V4.2 branch.\<close>

definition site_fallback :: "('a site_info_scheme) \<Rightarrow> 'a site_info_scheme" where
  "site_fallback si =
     (if actual_site si = ''unknown''
      then si\<lparr>actual_site := ''AmsLei_unspecified'', confidence := ''low''\<rparr>
      else si)"

text \<open>The three substring tests on the whole header that close both functions.\<close>

definition add_characteristics :: "string \<Rightarrow> ('a site_info_scheme) \<Rightarrow> 'a site_info_scheme" where
  "add_characteristics content si =
     (let c1 = characteristics si @ (if contains ''Number of label types'' content then [''ASL_capable''] else []);
          c2 = c1 @ (if contains ''SPIR'' content then [''SPIR_suppression''] else []);
          c3 = c2 @ (if contains ''SENSE'' content then [''SENSE_acceleration''] else [])
      in si\<lparr>characteristics := c3\<rparr>)"

text \<open>
  \<^verbatim>\<open>detect_nesda_site(content, file_path)\<close> of batch_bids_par_updater.py.
  \<open>version_match\<close> is the group of
  \<^verbatim>\<open>re.search(r'Research image export tool\s+V([\d.]+)', content)\<close>,
  \<open>patient_match\<close> the group of the search for \<^verbatim>\<open>Patient name\<close> and
  \<open>examination_match\<close> the group of the search for \<^verbatim>\<open>Examination name\<close>.
\<close>

definition detect_nesda_site ::
  "string option \<Rightarrow> string option \<Rightarrow> string option \<Rightarrow> string \<Rightarrow> string \<Rightarrow> py_error + site_info" where
  "detect_nesda_site version_match patient_match examination_match content file_path =
     (let si0 = \<lparr>version = ''unknown'', tool_version = ''unknown'', site_group = ''unknown'',
                 actual_site = ''unknown'', characteristics = [], confidence = ''low''\<rparr>
      in case version_match of
           None \<Rightarrow> Inr (add_characteristics content si0)
         | Some tv \<Rightarrow>
             (let si1 = si0\<lparr>tool_version := tv, version := ''V'' @ tv\<rparr>
              in if tv = ''4.1'' then
                   Inr (add_characteristics content
                          (si1\<lparr>site_group := ''Groningen'', actual_site := ''Groningen'',
                               characteristics := characteristics si1 @ [''V4.1_format''],
                               confidence := ''high''\<rparr>))
                 else if tv = ''4.2'' then
                   (let si2 = si1\<lparr>site_group := ''AmsLei'',
                                  characteristics := characteristics si1 @ [''V4.2_format'', ''ASL_capable'']\<rparr>;
                        si3 = site_from_patient [''VU'', ''VUMC'', ''AMSTERDAM'']
                                [''LUMC'', ''LEIDEN'', ''HULSBOSCH''] patient_match si2;
                        si4 = site_from_path file_path si3
                    in case site_from_examination examination_match si4 of
                         Inl e \<Rightarrow> Inl e
                       | Inr si5 \<Rightarrow> Inr (add_characteristics content (site_fallback si5)))
                 else Inr (add_characteristics content si1)))"

text \<open>\<^verbatim>\<open>detect_nesda_site_w6(content, file_path)\<close> of nesda_W6_bids_par_update.py.\<close>

definition detect_nesda_site_w6 ::
  "string option \<Rightarrow> string option \<Rightarrow> string \<Rightarrow> string \<Rightarrow> site_info_w6" where
  "detect_nesda_site_w6 version_match patient_match content file_path =
     (let si0 = \<lparr>version = ''unknown'', tool_version = ''unknown'', site_group = ''unknown'',
                 actual_site = ''unknown'', characteristics = [], confidence = ''low'',
                 wave = ''W6''\<rparr>
      in case version_match of
           None \<Rightarrow> add_characteristics content si0
         | Some tv \<Rightarrow>
             (let si1 = si0\<lparr>tool_version := tv, version := ''V'' @ tv\<rparr>
              in if tv = ''4.1'' then
                   add_characteristics content
                     (si1\<lparr>site_group := ''Groningen'', actual_site := ''Groningen'',
                          characteristics := characteristics si1 @ [''V4.1_format''],
                          confidence := ''high''\<rparr>)
                 else if tv = ''4.2'' then
                   (let si2 = si1\<lparr>site_group := ''AmsLei'',
                                  characteristics := characteristics si1 @ [''V4.2_format'', ''ASL_capable'']\<rparr>;
                        si3 = site_from_patient [''VU'', ''VUMC'', ''AMSTERDAM'', ''AMS'']
                                [''LUMC'', ''LEIDEN'', ''LEI''] patient_match si2;
                        si4 = site_from_path_w6 file_path si3
                    in add_characteristics content (site_fallback si4))
                 else add_characteristics content si1))"

section \<open>JSON documents\<close>

text \<open>
  The value that \<^verbatim>\<open>json.load\<close> returns and \<^verbatim>\<open>json.dump\<close> writes. A Python dict
  keeps its keys in insertion order, so an object is an association list; a lookup takes
  the first entry of a key and an assignment replaces that entry in place or appends a
  new one.
\<close>

datatype json =
    JNull
  | JBool bool
  | JInt int
  | JFloat rat
  | JStr string
  | JList "json list"
  | JObj "(string \<times> json) list"

type_synonym dict = "(string \<times> json) list"

definition dict_get :: "dict \<Rightarrow> string \<Rightarrow> json option" where
  "dict_get d k = map_of d k"

definition dict_set :: "string \<Rightarrow> json \<Rightarrow> dict \<Rightarrow> dict" where
  "dict_set k v d = AList.update k v d"





section \<open>The sidecar merger\<close>

subsection \<open>The merge loop\<close>


subsection \<open>Files and time\<close>

text \<open>
  A file holds a JSON text or something that \<^verbatim>\<open>json.load\<close> rejects. The world is
  the set of files by path and the paths at which a file can be neither created nor
  overwritten (a read-only place, a name that is too long).
\<close>

datatype file_content = JsonFile json | BadFile

record world =
  files :: "(string \<times> file_content) list"
  unwritable :: "string list"

record datetime =
  year :: nat
  month :: nat
  day :: nat
  hour :: nat
  minute :: nat
  second :: nat
  microsecond :: nat

text \<open>\<^verbatim>\<open>now.strftime('%Y%m%d_%H%M%S')\<close>, for a year of four digits.\<close>

definition strftime_backup :: "datetime \<Rightarrow> string" where
  "strftime_backup now =
     pad4 (year now) @ pad2 (month now) @ pad2 (day now) @ ''_'' @
     pad2 (hour now) @ pad2 (minute now) @ pad2 (second now)"

text \<open>\<^verbatim>\<open>now.isoformat()\<close>; the fraction is left out when the microsecond is zero.\<close>

definition isoformat :: "datetime \<Rightarrow> string" where
  "isoformat now =
     pad4 (year now) @ ''-'' @ pad2 (month now) @ ''-'' @ pad2 (day now) @ ''T'' @
     pad2 (hour now) @ '':'' @ pad2 (minute now) @ '':'' @ pad2 (second now) @
     (if microsecond now = 0 then [] else ''.'' @ pad6 (microsecond now))"

text \<open>\<^verbatim>\<open>shutil.copy2(src, dst)\<close>.\<close>

definition copy2 :: "string \<Rightarrow> string \<Rightarrow> world \<Rightarrow> py_error + world" where
  "copy2 src dst w =
     (case map_of (files w) src of
        None \<Rightarrow> Inl OSError
      | Some f \<Rightarrow>
          if dst \<in> set (unwritable w) then Inl OSError
          else Inr (w\<lparr>files := AList.update dst f (files w)\<rparr>))"

text \<open>\<^verbatim>\<open>with open(path, 'r') as f: json.load(f)\<close>.\<close>

definition load_json :: "string \<Rightarrow> world \<Rightarrow> py_error + json" where
  "load_json path w =
     (case map_of (files w) path of
        None \<Rightarrow> Inl OSError
      | Some BadFile \<Rightarrow> Inl ValueError
      | Some (JsonFile j) \<Rightarrow> Inr j)"


subsection \<open>Backup and merge\<close>

definition backup_path :: "string \<Rightarrow> datetime \<Rightarrow> string" where
  "backup_path json_file_path now = json_file_path @ ''.backup_'' @ strftime_backup now"

text \<open>
  \<^verbatim>\<open>
  timestamp = datetime.now().strftime('%Y%m%d_%H%M%S')
  backup_path = f"{json_file_path}.backup_{timestamp}"
  try:
      shutil.copy2(json_file_path, backup_path)
  except:
      pass
  \<close>
\<close>

definition backup_step :: "world \<Rightarrow> datetime \<Rightarrow> string \<Rightarrow> world" where
  "backup_step w now json_file_path =
     (case copy2 json_file_path (backup_path json_file_path now) w of
        Inl e \<Rightarrow> w
      | Inr w' \<Rightarrow> w')"













section \<open>Phase-encoding direction\<close>

text \<open>
  The chain of tests shared by batch_bids_par_updater.py, nesda_W6_bids_par_update.py,
  nesda_json_updater.py and nesda_single_subject_updater.py, on the captured text after
  \<^verbatim>\<open>strip().lower()\<close>:
  \<^verbatim>\<open>
  if 'anterior-posterior' in direction or direction == 'ap':   phase_encoding_dir = 'j-'
  elif 'posterior-anterior' in direction or direction == 'pa': phase_encoding_dir = 'j'
  elif 'left-right' in direction or direction == 'lr':         phase_encoding_dir = 'i-'
  elif 'right-left' in direction or direction == 'rl':         phase_encoding_dir = 'i'
  \<close>
\<close>

definition phase_of_direction :: "string \<Rightarrow> string option" where
  "phase_of_direction direction =
     (if contains ''anterior-posterior'' direction \<or> direction = ''ap'' then Some ''j-''
      else if contains ''posterior-anterior'' direction \<or> direction = ''pa'' then Some ''j''
      else if contains ''left-right'' direction \<or> direction = ''lr'' then Some ''i-''
      else if contains ''right-left'' direction \<or> direction = ''rl'' then Some ''i''
      else None)"

text \<open>
  Section 6 of \<^verbatim>\<open>extract_philips_bids_3sites\<close>: the five patterns are tried in order
  and the loop stops at the first one whose text maps to a code. The result is the value
  stored under PhaseEncodingDirection, \<open>None\<close> when the key is not set.
\<close>

fun phase_loop_3sites :: "string option list \<Rightarrow> string option" where
  "phase_loop_3sites [] = None"
| "phase_loop_3sites (None # rest) = phase_loop_3sites rest"
| "phase_loop_3sites (Some g # rest) =
     (case phase_of_direction (lower (strip g)) of
        Some phase_encoding_dir \<Rightarrow> Some phase_encoding_dir
      | None \<Rightarrow> phase_loop_3sites rest)"

text \<open>The first pattern that matches, for the loops that \<^verbatim>\<open>break\<close> at the first match.\<close>

fun first_match :: "'a option list \<Rightarrow> 'a option" where
  "first_match [] = None"
| "first_match (None # rest) = first_match rest"
| "first_match (Some g # rest) = Some g"

text \<open>
  The section of nesda_single_subject_updater.py and section 17 of nesda_json_updater.py:
  only the first matching pattern is looked at, and \<^verbatim>\<open>'j-'\<close> is the default.
\<close>

definition phase_section_default :: "string option list \<Rightarrow> string" where
  "phase_section_default prep_matches =
     (case first_match prep_matches of
        None \<Rightarrow> ''j-''
      | Some g \<Rightarrow>
          (case phase_of_direction (lower (strip g)) of
             None \<Rightarrow> ''j-''
           | Some phase_encoding_dir \<Rightarrow> phase_encoding_dir))"

text \<open>
  bids_par_json_updater.py, on the word captured by
  \<^verbatim>\<open>phase encoding direction\s*:\s*(\w+)\<close>:
  \<^verbatim>\<open>
  direction = phase_match.group(1).lower()
  if 'ap' in direction or 'anterior' in direction:    phase_dir = 'j-'
  elif 'pa' in direction or 'posterior' in direction: phase_dir = 'j'
  elif 'lr' in direction or 'left' in direction:      phase_dir = 'i-'
  elif 'rl' in direction or 'right' in direction:     phase_dir = 'i'
  if not phase_dir: phase_dir = 'j-'
  \<close>
\<close>

definition phase_dir_bids_par :: "string option \<Rightarrow> string" where
  "phase_dir_bids_par phase_match =
     (case phase_match of
        None \<Rightarrow> ''j-''
      | Some g \<Rightarrow>
          (let direction = lower g
           in if contains ''ap'' direction \<or> contains ''anterior'' direction then ''j-''
              else if contains ''pa'' direction \<or> contains ''posterior'' direction then ''j''
              else if contains ''lr'' direction \<or> contains ''left'' direction then ''i-''
              else if contains ''rl'' direction \<or> contains ''right'' direction then ''i''
              else ''j-''))"

section \<open>Effective echo spacing\<close>

text \<open>
  Section 7 of \<^verbatim>\<open>extract_philips_bids_3sites\<close>. The loop over the water-fat-shift
  patterns keeps the last converted value in \<^verbatim>\<open>water_fat_shift\<close> and stops at the
  first positive one, which it also stores.
\<close>

fun wfs_loop_3sites :: "(string \<Rightarrow> rat option) \<Rightarrow> string option list \<Rightarrow> rat option \<Rightarrow> dict \<Rightarrow> rat option \<times> dict" where
  "wfs_loop_3sites pyfloat [] water_fat_shift bids_fields = (water_fat_shift, bids_fields)"
| "wfs_loop_3sites pyfloat (None # rest) water_fat_shift bids_fields =
     wfs_loop_3sites pyfloat rest water_fat_shift bids_fields"
| "wfs_loop_3sites pyfloat (Some g # rest) water_fat_shift bids_fields =
     (case safe_float pyfloat g of
        Some x \<Rightarrow>
          if x \<noteq> 0 \<and> 0 < x then (Some x, dict_set ''WaterFatShift'' (JFloat x) bids_fields)
          else wfs_loop_3sites pyfloat rest (Some x) bids_fields
      | None \<Rightarrow> wfs_loop_3sites pyfloat rest None bids_fields)"

text \<open>
  The loop over the reconstruction patterns sets \<^verbatim>\<open>recon_matrix_pe\<close> only when both
  numbers are true.
\<close>

fun recon_loop_3sites :: "(string \<Rightarrow> rat option) \<Rightarrow> (string \<times> string) option list \<Rightarrow> dict \<Rightarrow> int option \<times> dict" where
  "recon_loop_3sites pyfloat [] bids_fields = (None, bids_fields)"
| "recon_loop_3sites pyfloat (None # rest) bids_fields = recon_loop_3sites pyfloat rest bids_fields"
| "recon_loop_3sites pyfloat (Some (g1, g2) # rest) bids_fields =
     (case (safe_int pyfloat g1, safe_int pyfloat g2) of
        (Some recon_x, Some recon_y) \<Rightarrow>
          if recon_x \<noteq> 0 \<and> recon_y \<noteq> 0
          then (Some recon_y,
                dict_set ''ReconMatrixFE'' (JInt recon_x)
                  (dict_set ''ReconMatrixPE'' (JInt recon_y) bids_fields))
          else recon_loop_3sites pyfloat rest bids_fields
      | _ \<Rightarrow> recon_loop_3sites pyfloat rest bids_fields)"

text \<open>
  \<^verbatim>\<open>
  if water_fat_shift and recon_matrix_pe:
      try:
          bandwidth_factor = 434.215
          if site_info['actual_site'] == 'Groningen': bandwidth_factor = 434.215
          elif site_info['actual_site'] == 'Amsterdam': bandwidth_factor = 434.215
          elif site_info['actual_site'] == 'Leiden': bandwidth_factor = 434.215
          bandwidth_per_pixel_hz = bandwidth_factor / water_fat_shift
          ees = 1.0 / (bandwidth_per_pixel_hz * recon_matrix_pe)
          bids_fields['EffectiveEchoSpacing'] = round(ees, 8)
      except Exception as e:
          print(...)
  \<close>
\<close>

definition ees_calc_3sites :: "string \<Rightarrow> rat option \<Rightarrow> int option \<Rightarrow> dict \<Rightarrow> dict" where
  "ees_calc_3sites site water_fat_shift recon_matrix_pe bids_fields =
     (case (water_fat_shift, recon_matrix_pe) of
        (Some wfs, Some recon) \<Rightarrow>
          if wfs \<noteq> 0 \<and> recon \<noteq> 0 then
            (let bandwidth_factor =
                   (if site = ''Groningen'' then 434215 / 1000
                    else if site = ''Amsterdam'' then 434215 / 1000
                    else if site = ''Leiden'' then 434215 / 1000
                    else 434215 / 1000)
             in case py_div bandwidth_factor wfs of
                  None \<Rightarrow> bids_fields
                | Some bandwidth_per_pixel_hz \<Rightarrow>
                    (case py_div 1 (bandwidth_per_pixel_hz * of_int recon) of
                       None \<Rightarrow> bids_fields
                     | Some ees \<Rightarrow> dict_set ''EffectiveEchoSpacing'' (JFloat (py_round 8 ees)) bids_fields))
          else bids_fields
      | _ \<Rightarrow> bids_fields)"

definition ees_section_3sites ::
  "(string \<Rightarrow> rat option) \<Rightarrow> string \<Rightarrow> string option list \<Rightarrow> (string \<times> string) option list \<Rightarrow> dict \<Rightarrow> dict" where
  "ees_section_3sites pyfloat site wfs_matches recon_matches bids_fields =
     (case wfs_loop_3sites pyfloat wfs_matches None bids_fields of
        (water_fat_shift, bids_fields1) \<Rightarrow>
          (case recon_loop_3sites pyfloat recon_matches bids_fields1 of
             (recon_matrix_pe, bids_fields2) \<Rightarrow>
               ees_calc_3sites site water_fat_shift recon_matrix_pe bids_fields2))"

text \<open>
  Section 18 of the targeted extractor (nesda_json_updater.py): each loop stops at the
  first matching pattern, and the field falls back to 0.0005 when an input is missing
  or the computation raises.
\<close>

definition wfs_targeted :: "(string \<Rightarrow> rat option) \<Rightarrow> string option list \<Rightarrow> rat option" where
  "wfs_targeted pyfloat wfs_matches =
     (case first_match wfs_matches of None \<Rightarrow> None | Some g \<Rightarrow> safe_float pyfloat g)"

definition recon_targeted :: "(string \<Rightarrow> rat option) \<Rightarrow> (string \<times> string) option list \<Rightarrow> int option" where
  "recon_targeted pyfloat recon_matches =
     (case first_match recon_matches of
        None \<Rightarrow> None
      | Some (g1, g2) \<Rightarrow>
          (let recon_x = safe_int pyfloat g1; recon_y = safe_int pyfloat g2
           in if truthy recon_y then recon_y else None))"

definition ees_calc_targeted :: "rat option \<Rightarrow> int option \<Rightarrow> rat" where
  "ees_calc_targeted water_fat_shift recon_matrix_pe =
     (case (water_fat_shift, recon_matrix_pe) of
        (Some wfs, Some recon) \<Rightarrow>
          if wfs \<noteq> 0 \<and> recon \<noteq> 0 then
            (case py_div (434215 / 1000) wfs of
               None \<Rightarrow> 5 / 10000
             | Some bandwidth_per_pixel_hz \<Rightarrow>
                 (case py_div 1 (bandwidth_per_pixel_hz * of_int recon) of
                    None \<Rightarrow> 5 / 10000
                  | Some ees \<Rightarrow> py_round 8 ees))
          else 5 / 10000
      | _ \<Rightarrow> 5 / 10000)"

definition ees_section_targeted ::
  "(string \<Rightarrow> rat option) \<Rightarrow> string option list \<Rightarrow> (string \<times> string) option list \<Rightarrow> dict \<Rightarrow> dict" where
  "ees_section_targeted pyfloat wfs_matches recon_matches bids_fields =
     dict_set ''EffectiveEchoSpacing''
       (JFloat (ees_calc_targeted (wfs_targeted pyfloat wfs_matches)
                  (recon_targeted pyfloat recon_matches)))
       bids_fields"

section \<open>The targeted extractor\<close>

text \<open>
  What \<^verbatim>\<open>extract_complete_philips_params\<close> of nesda_json_updater.py sees of the header: for each list of
  patterns the outcomes of \<^verbatim>\<open>re.search\<close> in the order of the list, and the text
  captured after the IMAGE INFORMATION banner.
\<close>

record targeted_matches =
  position_matches :: "string option list"
  series_matches :: "string option list"
  protocol_matches :: "string option list"
  series_num_matches :: "string option list"
  acq_matches :: "string option list"
  image_section :: "string option"
  te_matches :: "string option list"
  tr_matches :: "string option list"
  slices_matches :: "string option list"
  orientation_matches :: "string option list"
  prep_matches :: "string option list"
  wfs_matches :: "string option list"
  recon_matches :: "(string \<times> string) option list"

text \<open>\<^verbatim>\<open>if key not in bids_fields: bids_fields[key] = value\<close>.\<close>

definition set_default :: "string \<Rightarrow> json \<Rightarrow> dict \<Rightarrow> dict" where
  "set_default k v bids_fields = (if map_of bids_fields k = None then dict_set k v bids_fields else bids_fields)"

text \<open>
  Sections 2 to 4: the loop stores the first capture that \<^verbatim>\<open>safe_str\<close> does not
  turn into the empty string.
\<close>

fun str_loop :: "string \<Rightarrow> string option list \<Rightarrow> dict \<Rightarrow> dict" where
  "str_loop k [] bids_fields = bids_fields"
| "str_loop k (None # rest) bids_fields = str_loop k rest bids_fields"
| "str_loop k (Some g # rest) bids_fields =
     (let v = safe_str (strip g)
      in if v \<noteq> [] then dict_set k (JStr v) bids_fields else str_loop k rest bids_fields)"

text \<open>Sections 5 and 6: the loop stores the first number that is true.\<close>

fun int_loop :: "(string \<Rightarrow> rat option) \<Rightarrow> string \<Rightarrow> string option list \<Rightarrow> dict \<Rightarrow> dict" where
  "int_loop pyfloat k [] bids_fields = bids_fields"
| "int_loop pyfloat k (None # rest) bids_fields = int_loop pyfloat k rest bids_fields"
| "int_loop pyfloat k (Some g # rest) bids_fields =
     (case safe_int pyfloat g of
        Some n \<Rightarrow> if n \<noteq> 0 then dict_set k (JInt n) bids_fields
                  else int_loop pyfloat k rest bids_fields
      | None \<Rightarrow> int_loop pyfloat k rest bids_fields)"

text \<open>
  Section 8, the rescale parameters of the first image row of at least twelve columns
  whose first column is a number.
\<close>

fun rescale_loop :: "(string \<Rightarrow> rat option) \<Rightarrow> string list \<Rightarrow> dict \<Rightarrow> dict" where
  "rescale_loop pyfloat [] bids_fields = bids_fields"
| "rescale_loop pyfloat (line # rest) bids_fields =
     (let parts = py_split (strip line)
      in if 12 \<le> length parts \<and> isdigit (parts ! 0) then
           (let rescale_slope = safe_float pyfloat (parts ! 10);
                rescale_intercept = safe_float pyfloat (parts ! 11);
                scale_slope = (if 12 < length parts then safe_float pyfloat (parts ! 12) else Some 1);
                f1 = (case rescale_slope of
                        Some x \<Rightarrow> if x \<noteq> 0 then dict_set ''PhilipsRescaleSlope'' (JFloat x) bids_fields
                                  else bids_fields
                      | None \<Rightarrow> bids_fields);
                f2 = (case rescale_intercept of
                        Some x \<Rightarrow> dict_set ''PhilipsRescaleIntercept'' (JFloat x) f1
                      | None \<Rightarrow> f1)
            in case scale_slope of
                 Some x \<Rightarrow> if x \<noteq> 0 then dict_set ''PhilipsScaleSlope'' (JFloat x) f2 else f2
               | None \<Rightarrow> f2)
         else rescale_loop pyfloat rest bids_fields)"

definition rescale_section :: "(string \<Rightarrow> rat option) \<Rightarrow> string option \<Rightarrow> dict \<Rightarrow> dict" where
  "rescale_section pyfloat image_section_match bids_fields =
     (let f1 = (case image_section_match of
                  None \<Rightarrow> bids_fields
                | Some g \<Rightarrow> rescale_loop pyfloat (split_on CHR 0x0A g) bids_fields)
      in set_default ''PhilipsScaleSlope'' (JFloat 1)
           (set_default ''PhilipsRescaleIntercept'' (JFloat 0)
              (set_default ''PhilipsRescaleSlope'' (JFloat 1) f1)))"

text \<open>
  Sections 10 and 12: the loop stores the first positive time, converted from
  milliseconds to seconds.
\<close>

fun ms_loop :: "(string \<Rightarrow> rat option) \<Rightarrow> string \<Rightarrow> string option list \<Rightarrow> dict \<Rightarrow> dict" where
  "ms_loop pyfloat k [] bids_fields = bids_fields"
| "ms_loop pyfloat k (None # rest) bids_fields = ms_loop pyfloat k rest bids_fields"
| "ms_loop pyfloat k (Some g # rest) bids_fields =
     (case safe_float pyfloat g of
        Some t_ms \<Rightarrow>
          if t_ms \<noteq> 0 \<and> 0 < t_ms then dict_set k (JFloat (py_round 6 (t_ms / 1000))) bids_fields
          else ms_loop pyfloat k rest bids_fields
      | None \<Rightarrow> ms_loop pyfloat k rest bids_fields)"

text \<open>
  Section 11. A row of exactly eighteen columns has no \<^verbatim>\<open>parts[18]\<close>: the
  IndexError is caught and the loop continues.
\<close>

fun orientation_loop :: "(string \<Rightarrow> rat option) \<Rightarrow> string list \<Rightarrow> rat list" where
  "orientation_loop pyfloat [] = []"
| "orientation_loop pyfloat (line # rest) =
     (let parts = py_split (strip line)
      in if 9 \<le> length parts \<and> isdigit (parts ! 0) \<and> 18 \<le> length parts \<and> length parts \<noteq> 18 then
           (case those (map (\<lambda>i. safe_float pyfloat (parts ! i)) [13..<19]) of
              Some orientation_values \<Rightarrow> orientation_values
            | None \<Rightarrow> orientation_loop pyfloat rest)
         else orientation_loop pyfloat rest)"

definition orientation_section :: "(string \<Rightarrow> rat option) \<Rightarrow> string option \<Rightarrow> dict \<Rightarrow> dict" where
  "orientation_section pyfloat image_section_match bids_fields =
     (let m = (case image_section_match of
                 None \<Rightarrow> []
               | Some g \<Rightarrow> orientation_loop pyfloat (split_on CHR 0x0A g));
          orientation_matrix = (if m = [] then [1, 0, 0, 0, 1, 0] else m)
      in dict_set ''ImageOrientationPatientDICOM'' (JList (map JFloat orientation_matrix)) bids_fields)"

text \<open>
  Section 13: \<^verbatim>\<open>n_slices\<close> keeps the last converted value and the loop stops at the
  first positive one.
\<close>

fun slices_loop :: "(string \<Rightarrow> rat option) \<Rightarrow> string option list \<Rightarrow> int option \<Rightarrow> int option" where
  "slices_loop pyfloat [] n_slices = n_slices"
| "slices_loop pyfloat (None # rest) n_slices = slices_loop pyfloat rest n_slices"
| "slices_loop pyfloat (Some g # rest) n_slices =
     (case safe_int pyfloat g of
        Some n \<Rightarrow> if n \<noteq> 0 \<and> 0 < n then Some n else slices_loop pyfloat rest (Some n)
      | None \<Rightarrow> slices_loop pyfloat rest None)"

definition repetition_time_of :: "dict \<Rightarrow> rat option" where
  "repetition_time_of bids_fields =
     (case map_of bids_fields ''RepetitionTime'' of Some (JFloat tr) \<Rightarrow> Some tr | _ \<Rightarrow> None)"

text \<open>Section 14; an exception here leaves the function through its handler.\<close>

definition slice_timing_targeted :: "int option \<Rightarrow> dict \<Rightarrow> py_error + dict" where
  "slice_timing_targeted n_slices bids_fields =
     (case slice_timing_section (repetition_time_of bids_fields) n_slices of
        None \<Rightarrow> Inr bids_fields
      | Some (Inl e) \<Rightarrow> Inl e
      | Some (Inr slice_timing) \<Rightarrow>
          Inr (dict_set ''SliceTiming'' (JList (map JFloat slice_timing)) bids_fields))"

text \<open>Section 16: the code of the first matching pattern decides, axial is the default.\<close>

definition slice_encoding_targeted :: "(string \<Rightarrow> rat option) \<Rightarrow> string option list \<Rightarrow> string" where
  "slice_encoding_targeted pyfloat matches =
     (case first_match matches of
        None \<Rightarrow> ''k''
      | Some g \<Rightarrow>
          (let orient_code = safe_int pyfloat g
           in if orient_code = Some 1 then ''k''
              else if orient_code = Some 2 then ''i''
              else if orient_code = Some 3 then ''j''
              else ''k''))"

text \<open>\<^verbatim>\<open>len([k for k in bids_fields.keys() if not k.startswith('_')])\<close>.\<close>

definition count_public :: "dict \<Rightarrow> int" where
  "count_public bids_fields = int (length (filter (\<lambda>k. \<not> startswith k ''_'') (map fst bids_fields)))"

definition targeted_processing_info :: "datetime \<Rightarrow> dict \<Rightarrow> json" where
  "targeted_processing_info now bids_fields =
     JObj [(''ExtractedBy'', JStr ''nesda_targeted_bids_updater.py''),
           (''ExtractionDateTime'', JStr (isoformat now)),
           (''ProcessedBy'', JStr ''JulianGaviriaL''),
           (''DataCollection'', JStr ''NESDA''),
           (''TargetedSubjects'', JInt 39),
           (''AcquisitionType'', JStr ''interleaved_ascending''),
           (''ParametersExtracted'', JInt (count_public bids_fields))]"

text \<open>The body of the \<^verbatim>\<open>try\<close>, after the header has been read.\<close>

definition targeted_body :: "(string \<Rightarrow> rat option) \<Rightarrow> datetime \<Rightarrow> targeted_matches \<Rightarrow> py_error + dict" where
  "targeted_body pyfloat now m =
     (let f1 = dict_set ''Manufacturer'' (JStr ''Philips'') [];
          f2 = set_default ''PatientPosition'' (JStr ''HFS'')
                 (str_loop ''PatientPosition'' (position_matches m) f1);
          f3 = set_default ''SeriesDescription'' (JStr ''fMRI_BOLD_REST'')
                 (str_loop ''SeriesDescription'' (series_matches m) f2);
          f4 = set_default ''ProtocolName'' (JStr ''NESDA_REST_fMRI'')
                 (str_loop ''ProtocolName'' (protocol_matches m) f3);
          f5 = set_default ''SeriesNumber'' (JInt 1)
                 (int_loop pyfloat ''SeriesNumber'' (series_num_matches m) f4);
          f6 = set_default ''AcquisitionNumber'' (JInt 1)
                 (int_loop pyfloat ''AcquisitionNumber'' (acq_matches m) f5);
          f7 = dict_set ''ImageComments'' (JStr ''NESDA'') f6;
          f8 = rescale_section pyfloat (image_section m) f7;
          f9 = dict_set ''UsePhilipsFloatNotDisplayScaling'' (JBool True) f8;
          f10 = set_default ''EchoTime'' (JFloat (28 / 1000))
                  (ms_loop pyfloat ''EchoTime'' (te_matches m) f9);
          f11 = orientation_section pyfloat (image_section m) f10;
          f12 = ms_loop pyfloat ''RepetitionTime'' (tr_matches m) f11;
          n_slices = slices_loop pyfloat (slices_matches m) None
      in case slice_timing_targeted n_slices f12 of
           Inl e \<Rightarrow> Inl e
         | Inr f14 \<Rightarrow>
             (let f15 = dict_set ''TaskName'' (JStr ''rest'') f14;
                  f16 = dict_set ''SliceEncodingDirection''
                          (JStr (slice_encoding_targeted pyfloat (orientation_matches m))) f15;
                  f17 = dict_set ''PhaseEncodingDirection''
                          (JStr (phase_section_default (prep_matches m))) f16;
                  f18 = ees_section_targeted pyfloat (wfs_matches m) (recon_matches m) f17
              in Inr (dict_set ''_ProcessingInfo'' (targeted_processing_info now f18) f18)))"

text \<open>
  \<^verbatim>\<open>extract_complete_philips_params(par_file_path)\<close>. The argument is \<open>None\<close> when the
  file cannot be opened or read, which raises inside the \<^verbatim>\<open>try\<close>; every exception
  ends in \<^verbatim>\<open>return {}\<close>.
\<close>

definition extract_complete_philips_params ::
  "(string \<Rightarrow> rat option) \<Rightarrow> datetime \<Rightarrow> targeted_matches option \<Rightarrow> dict" where
  "extract_complete_philips_params pyfloat now header =
     (case header of
        None \<Rightarrow> []
      | Some m \<Rightarrow> (case targeted_body pyfloat now m of Inl e \<Rightarrow> [] | Inr bids_fields \<Rightarrow> bids_fields))"

section \<open>Example inputs\<close>





text \<open>A header in which no pattern of the targeted extractor matches.\<close>

definition empty_matches :: targeted_matches where
  "empty_matches =
     \<lparr>position_matches = [None, None], series_matches = [None, None, None],
      protocol_matches = [None, None, None], series_num_matches = [None, None, None],
      acq_matches = [None, None, None], image_section = None,
      te_matches = [None, None, None], tr_matches = [None, None, None],
      slices_matches = [None, None, None], orientation_matches = [None, None],
      prep_matches = [None, None, None], wfs_matches = [None, None, None],
      recon_matches = [None, None, None]\<rparr>"



section \<open>Theorems: slice timing\<close>







lemma acquisition_order_closed:
  "acquisition_order n = map (\<lambda>k. 2 * int k) [0..<nat ((n + 1) div 2)] @ map (\<lambda>k. 2 * int k + 1) [0..<nat (n div 2)]"
  by (simp add: acquisition_order_def range_step2_def comp_def)



lemma length_acquisition_order: "0 \<le> n \<Longrightarrow> length (acquisition_order n) = nat n"
  unfolding acquisition_order_closed by simp








lemma acquisition_order_6: "acquisition_order 6 = [0, 2, 4, 1, 3, 5]"
  by (simp add: acquisition_order_def range_step2_def eval_nat_numeral upt_rec)

lemma slice_timing_of_3_6: "slice_timing_of 3 6 = Inr [0, 3 / 2, 1 / 2, 2, 1, 5 / 2]"
  by code_simp



text \<open>
  C2, as the specification states it: with six slices and a repetition time of three
  seconds the slice timing would be \<open>[0.0, 1.0, 2.0, 0.5, 1.5, 2.5]\<close>. That list is the
  acquisition order times 0.5; the code stores under slice \<open>s\<close> the time at which
  \<open>s\<close> is acquired.
\<close>

theorem slice_timing_example_counterexample:
  "slice_timing_section (Some 3) (Some 6) \<noteq> Some (Inr [0, 1, 2, 1 / 2, 3 / 2, 5 / 2])"
  by (simp add: slice_timing_section_def slice_timing_of_3_6)

text \<open>
  C2, amended: with six slices and a repetition time of three seconds the acquisition
  order is \<open>[0,2,4,1,3,5]\<close> and the slice timing is \<open>[0.0, 1.5, 0.5, 2.0, 1.0, 2.5]\<close>.
\<close>

theorem slice_timing_example:
  "acquisition_order 6 = [0, 2, 4, 1, 3, 5] \<and>
   slice_timing_section (Some 3) (Some 6) = Some (Inr [0, 3 / 2, 1 / 2, 2, 1, 5 / 2])"
  by (simp add: acquisition_order_6 slice_timing_section_def slice_timing_of_3_6)

section \<open>Theorems: site detection\<close>

lemma search_110_digits: "search_110 s = Some g \<Longrightarrow> isdigit g"
  by (induction s) (auto split: if_splits)

lemma py_int_digits: "isdigit g \<Longrightarrow> \<exists>n. py_int g = Inr n"
  by (simp add: py_int_def)

lemma site_from_examination_ok:
  "\<exists>si'. site_from_examination em si = Inr si' \<and> tool_version si' = tool_version si"
proof (cases em)
  case None
  then show ?thesis by (simp add: site_from_examination_def)
next
  case (Some g)
  show ?thesis
  proof (cases "actual_site si = ''unknown''")
    case False
    with Some show ?thesis by (simp add: site_from_examination_def)
  next
    case True
    show ?thesis
    proof (cases "search_110 (strip g)")
      case None
      with Some True show ?thesis by (simp add: site_from_examination_def)
    next
      case (Some digits)
      then obtain n where "py_int digits = Inr n"
        using search_110_digits py_int_digits by blast
      with Some \<open>em = Some g\<close> True show ?thesis by (simp add: site_from_examination_def)
    qed
  qed
qed

lemma tool_version_site_from_patient [simp]:
  "tool_version (site_from_patient a l pm si) = tool_version si"
  by (simp add: site_from_patient_def Let_def split: option.splits)

lemma tool_version_site_from_path [simp]:
  "tool_version (site_from_path p si) = tool_version si"
  by (simp add: site_from_path_def Let_def)

lemma tool_version_site_from_path_w6 [simp]:
  "tool_version (site_from_path_w6 p si) = tool_version si"
  by (simp add: site_from_path_w6_def Let_def)

lemma tool_version_site_fallback [simp]:
  "tool_version (site_fallback si) = tool_version si"
  by (simp add: site_fallback_def)

lemma add_characteristics_fields [simp]:
  "tool_version (add_characteristics c si) = tool_version si"
  "actual_site (add_characteristics c si) = actual_site si"
  "confidence (add_characteristics c si) = confidence si"
  by (simp_all add: add_characteristics_def Let_def)

lemma detect_nesda_site_ok:
  "\<exists>si. detect_nesda_site vm pm em content path = Inr si \<and>
       (tool_version si = ''4.1'' \<longrightarrow> actual_site si = ''Groningen'' \<and> confidence si = ''high'') \<and>
       (vm = Some ''4.1'' \<longrightarrow> tool_version si = ''4.1'') \<and>
       (vm = None \<longrightarrow> actual_site si = ''unknown'' \<and> confidence si = ''low'')"
proof (cases vm)
  case None
  then show ?thesis by (simp add: detect_nesda_site_def)
next
  case (Some tv)
  show ?thesis
  proof (cases "tv = ''4.1''")
    case True
    with Some show ?thesis by (simp add: detect_nesda_site_def)
  next
    case n41: False
    show ?thesis
    proof (cases "tv = ''4.2''")
      case False
      with Some n41 show ?thesis by (simp add: detect_nesda_site_def)
    next
      case True
      define si4 where "si4 = site_from_path path
          (site_from_patient [''VU'', ''VUMC'', ''AMSTERDAM''] [''LUMC'', ''LEIDEN'', ''HULSBOSCH''] pm
            \<lparr>version = ''V4.2'', tool_version = ''4.2'', site_group = ''AmsLei'',
             actual_site = ''unknown'', characteristics = [''V4.2_format'', ''ASL_capable''],
             confidence = ''low''\<rparr>)"
      have tv4: "tool_version si4 = ''4.2''" by (simp add: si4_def)
      obtain si5 where si5: "site_from_examination em si4 = Inr si5" "tool_version si5 = tool_version si4"
        using site_from_examination_ok by blast
      have "detect_nesda_site vm pm em content path = Inr (add_characteristics content (site_fallback si5))"
        using Some True si5(1) by (simp add: detect_nesda_site_def si4_def)
      moreover have "tool_version (add_characteristics content (site_fallback si5)) = ''4.2''"
        using si5(2) tv4 by simp
      ultimately show ?thesis using Some True by simp
    qed
  qed
qed

lemma detect_nesda_site_w6_ok:
  "(tool_version (detect_nesda_site_w6 vm pm content path) = ''4.1'' \<longrightarrow>
      actual_site (detect_nesda_site_w6 vm pm content path) = ''Groningen'' \<and>
      confidence (detect_nesda_site_w6 vm pm content path) = ''high'') \<and>
   (vm = Some ''4.1'' \<longrightarrow> tool_version (detect_nesda_site_w6 vm pm content path) = ''4.1'') \<and>
   (vm = None \<longrightarrow> actual_site (detect_nesda_site_w6 vm pm content path) = ''unknown'' \<and>
      confidence (detect_nesda_site_w6 vm pm content path) = ''low'')"
proof (cases vm)
  case None
  then show ?thesis by (simp add: detect_nesda_site_w6_def)
next
  case (Some tv)
  show ?thesis
  proof (cases "tv = ''4.1''")
    case True
    with Some show ?thesis by (simp add: detect_nesda_site_w6_def)
  next
    case n41: False
    show ?thesis
    proof (cases "tv = ''4.2''")
      case False
      with Some n41 show ?thesis by (simp add: detect_nesda_site_w6_def)
    next
      case True
      with Some show ?thesis by (simp add: detect_nesda_site_w6_def)
    qed
  qed
qed

text \<open>
  C4. For every header, seen through the outcomes of the three searches, every content
  and every file path, \<open>detect_nesda_site\<close> returns a record and raises nothing, and so
  does \<open>detect_nesda_site_w6\<close>, which has no operation that can raise. In the record
  returned, a tool version of 4.1 comes with the site Groningen and the confidence high,
  whatever the patient name, the examination name and the path are; a header whose
  banner gives 4.1 has that tool version; and a header with no banner at all is
  answered with the site unknown and the confidence low.
\<close>

theorem site_detection_invariant:
  "(\<exists>si. detect_nesda_site vm pm em content path = Inr si \<and>
       (tool_version si = ''4.1'' \<longrightarrow> actual_site si = ''Groningen'' \<and> confidence si = ''high'') \<and>
       (vm = Some ''4.1'' \<longrightarrow> tool_version si = ''4.1'') \<and>
       (vm = None \<longrightarrow> actual_site si = ''unknown'' \<and> confidence si = ''low'')) \<and>
   (tool_version (detect_nesda_site_w6 vm pm content path) = ''4.1'' \<longrightarrow>
      actual_site (detect_nesda_site_w6 vm pm content path) = ''Groningen'' \<and>
      confidence (detect_nesda_site_w6 vm pm content path) = ''high'') \<and>
   (vm = Some ''4.1'' \<longrightarrow> tool_version (detect_nesda_site_w6 vm pm content path) = ''4.1'') \<and>
   (vm = None \<longrightarrow> actual_site (detect_nesda_site_w6 vm pm content path) = ''unknown'' \<and>
      confidence (detect_nesda_site_w6 vm pm content path) = ''low'')"
  using detect_nesda_site_ok[of vm pm em content path] detect_nesda_site_w6_ok[of vm pm content path]
  by (rule conjI)

theorem site_detection_invariant_witness:
  "(\<exists>si. detect_nesda_site (Some ''4.1'') (Some ''VUMC AMSTERDAM'') (Some ''110293'') ''SENSE'' ''/data/LEIDEN/x.PAR'' = Inr si \<and>
        actual_site si = ''Groningen'' \<and> confidence si = ''high'') \<and>
   actual_site (detect_nesda_site_w6 (Some ''4.1'') (Some ''VUMC AMSTERDAM'') ''SENSE'' ''/data/LEIDEN/x.PAR'') = ''Groningen'' \<and>
   confidence (detect_nesda_site_w6 (Some ''4.1'') (Some ''VUMC AMSTERDAM'') ''SENSE'' ''/data/LEIDEN/x.PAR'') = ''high''"
  using site_detection_invariant[of "Some ''4.1''" "Some ''VUMC AMSTERDAM''" "Some ''110293''" "''SENSE''" "''/data/LEIDEN/x.PAR''"]
  by auto


section \<open>Theorems: the sidecar merger\<close>

lemma map_of_dict_set: "map_of (dict_set k v d) k' = (if k' = k then Some v else map_of d k')"
  by (simp add: dict_set_def update_conv')










subsection \<open>Files\<close>

lemma backup_path_neq: "backup_path path t \<noteq> path"
  by (simp add: backup_path_def)

lemma files_backup_step:
  "p \<noteq> backup_path path t \<Longrightarrow> map_of (files (backup_step w t path)) p = map_of (files w) p"
  by (simp add: backup_step_def copy2_def update_conv' split: option.splits)

lemma unwritable_backup_step [simp]: "unwritable (backup_step w t path) = unwritable w"
  by (simp add: backup_step_def copy2_def split: option.splits)

lemma load_json_backup_step [simp]: "load_json path (backup_step w t path) = load_json path w"
  using files_backup_step[of path path t w] backup_path_neq[of path t]
  by (simp add: load_json_def)





lemma files_written:
  "p \<noteq> path \<Longrightarrow> map_of (files (w\<lparr>files := AList.update path x (files w)\<rparr>)) p = map_of (files w) p"
  by (simp add: update_conv')

























section \<open>Theorems: phase-encoding direction\<close>

lemma first_match_None: "\<forall>m\<in>set ms. m = None \<Longrightarrow> first_match ms = None"
  by (induction ms rule: first_match.induct) simp_all

lemma first_match_in: "first_match ms = Some g \<Longrightarrow> Some g \<in> set ms"
  by (induction ms rule: first_match.induct) simp_all

lemma phase_loop_3sites_None:
  "\<forall>m\<in>set ms. case m of None \<Rightarrow> True | Some g \<Rightarrow> phase_of_direction (lower (strip g)) = None \<Longrightarrow>
   phase_loop_3sites ms = None"
  by (induction ms rule: phase_loop_3sites.induct) simp_all

lemma phase_section_default_None:
  assumes "\<forall>m\<in>set ms. case m of None \<Rightarrow> True | Some g \<Rightarrow> phase_of_direction (lower (strip g)) = None"
  shows "phase_section_default ms = ''j-''"
proof (cases "first_match ms")
  case None
  then show ?thesis by (simp add: phase_section_default_def)
next
  case (Some g)
  then have "Some g \<in> set ms" by (rule first_match_in)
  with assms have "phase_of_direction (lower (strip g)) = None" by fastforce
  with Some show ?thesis by (simp add: phase_section_default_def)
qed

text \<open>
  C8. The captured text, stripped and lowercased, is mapped by the tests in their order:
  a text that contains anterior-posterior gives j-; otherwise one that contains
  posterior-anterior gives j; otherwise one that contains left-right gives i-; otherwise
  one that contains right-left gives i; the texts ap, pa, lr and rl stand for the four
  phrases; and a text that passes none of the tests gives no code. In the multi-site
  extractor the first pattern whose text gives a code decides, a text without a code
  passes the turn to the next pattern, and when no pattern gives a code the field stays
  absent. The targeted and single-subject extractors look at the first matching pattern
  only and fall back to j- when it gives no code or nothing matches. The first script
  (bids_par_json_updater.py) tests the captured word for ap or anterior, then pa or
  posterior, then lr or left, then rl or right, and falls back to j-.
\<close>

theorem phase_encoding_direction:
  "(contains ''anterior-posterior'' d \<longrightarrow> phase_of_direction d = Some ''j-'') \<and>
   (\<not> contains ''anterior-posterior'' d \<and> d \<noteq> ''ap'' \<and> contains ''posterior-anterior'' d \<longrightarrow>
      phase_of_direction d = Some ''j'') \<and>
   (\<not> contains ''anterior-posterior'' d \<and> d \<noteq> ''ap'' \<and> \<not> contains ''posterior-anterior'' d \<and> d \<noteq> ''pa'' \<and>
    contains ''left-right'' d \<longrightarrow> phase_of_direction d = Some ''i-'') \<and>
   (\<not> contains ''anterior-posterior'' d \<and> d \<noteq> ''ap'' \<and> \<not> contains ''posterior-anterior'' d \<and> d \<noteq> ''pa'' \<and>
    \<not> contains ''left-right'' d \<and> d \<noteq> ''lr'' \<and> contains ''right-left'' d \<longrightarrow>
      phase_of_direction d = Some ''i'') \<and>
   (\<not> contains ''anterior-posterior'' d \<and> d \<noteq> ''ap'' \<and> \<not> contains ''posterior-anterior'' d \<and> d \<noteq> ''pa'' \<and>
    \<not> contains ''left-right'' d \<and> d \<noteq> ''lr'' \<and> \<not> contains ''right-left'' d \<and> d \<noteq> ''rl'' \<longrightarrow>
      phase_of_direction d = None) \<and>
   phase_of_direction ''ap'' = Some ''j-'' \<and> phase_of_direction ''pa'' = Some ''j'' \<and>
   phase_of_direction ''lr'' = Some ''i-'' \<and> phase_of_direction ''rl'' = Some ''i'' \<and>
   (phase_of_direction (lower (strip g)) = Some c \<longrightarrow>
      phase_loop_3sites (Some g # rest) = Some c \<and> phase_section_default (Some g # rest) = c) \<and>
   (phase_of_direction (lower (strip g)) = None \<longrightarrow>
      phase_loop_3sites (Some g # rest) = phase_loop_3sites rest \<and>
      phase_section_default (Some g # rest) = ''j-'') \<and>
   phase_loop_3sites (None # rest) = phase_loop_3sites rest \<and>
   phase_section_default (None # rest) = phase_section_default rest \<and>
   ((\<forall>m\<in>set ms. case m of None \<Rightarrow> True | Some g \<Rightarrow> phase_of_direction (lower (strip g)) = None) \<longrightarrow>
      phase_loop_3sites ms = None \<and> phase_section_default ms = ''j-'') \<and>
   phase_dir_bids_par None = ''j-'' \<and>
   (contains ''ap'' (lower g) \<or> contains ''anterior'' (lower g) \<longrightarrow> phase_dir_bids_par (Some g) = ''j-'') \<and>
   (\<not> contains ''ap'' (lower g) \<and> \<not> contains ''anterior'' (lower g) \<and>
    (contains ''pa'' (lower g) \<or> contains ''posterior'' (lower g)) \<longrightarrow> phase_dir_bids_par (Some g) = ''j'') \<and>
   (\<not> contains ''ap'' (lower g) \<and> \<not> contains ''anterior'' (lower g) \<and>
    \<not> contains ''pa'' (lower g) \<and> \<not> contains ''posterior'' (lower g) \<and>
    (contains ''lr'' (lower g) \<or> contains ''left'' (lower g)) \<longrightarrow> phase_dir_bids_par (Some g) = ''i-'') \<and>
   (\<not> contains ''ap'' (lower g) \<and> \<not> contains ''anterior'' (lower g) \<and>
    \<not> contains ''pa'' (lower g) \<and> \<not> contains ''posterior'' (lower g) \<and>
    \<not> contains ''lr'' (lower g) \<and> \<not> contains ''left'' (lower g) \<and>
    (contains ''rl'' (lower g) \<or> contains ''right'' (lower g)) \<longrightarrow> phase_dir_bids_par (Some g) = ''i'') \<and>
   (\<not> contains ''ap'' (lower g) \<and> \<not> contains ''anterior'' (lower g) \<and>
    \<not> contains ''pa'' (lower g) \<and> \<not> contains ''posterior'' (lower g) \<and>
    \<not> contains ''lr'' (lower g) \<and> \<not> contains ''left'' (lower g) \<and>
    \<not> contains ''rl'' (lower g) \<and> \<not> contains ''right'' (lower g) \<longrightarrow> phase_dir_bids_par (Some g) = ''j-'')"
proof -
  have "(contains ''anterior-posterior'' d \<longrightarrow> phase_of_direction d = Some ''j-'')"
    by (simp add: phase_of_direction_def phase_dir_bids_par_def phase_section_default_def Let_def startswith_def)
  moreover
  have "(\<not> contains ''anterior-posterior'' d \<and> d \<noteq> ''ap'' \<and> contains ''posterior-anterior'' d \<longrightarrow>
      phase_of_direction d = Some ''j'')"
    by (simp add: phase_of_direction_def phase_dir_bids_par_def phase_section_default_def Let_def startswith_def)
  moreover
  have "(\<not> contains ''anterior-posterior'' d \<and> d \<noteq> ''ap'' \<and> \<not> contains ''posterior-anterior'' d \<and> d \<noteq> ''pa'' \<and>
    contains ''left-right'' d \<longrightarrow> phase_of_direction d = Some ''i-'')"
    by (simp add: phase_of_direction_def phase_dir_bids_par_def phase_section_default_def Let_def startswith_def)
  moreover
  have "(\<not> contains ''anterior-posterior'' d \<and> d \<noteq> ''ap'' \<and> \<not> contains ''posterior-anterior'' d \<and> d \<noteq> ''pa'' \<and>
    \<not> contains ''left-right'' d \<and> d \<noteq> ''lr'' \<and> contains ''right-left'' d \<longrightarrow>
      phase_of_direction d = Some ''i'')"
    by (simp add: phase_of_direction_def phase_dir_bids_par_def phase_section_default_def Let_def startswith_def)
  moreover
  have "(\<not> contains ''anterior-posterior'' d \<and> d \<noteq> ''ap'' \<and> \<not> contains ''posterior-anterior'' d \<and> d \<noteq> ''pa'' \<and>
    \<not> contains ''left-right'' d \<and> d \<noteq> ''lr'' \<and> \<not> contains ''right-left'' d \<and> d \<noteq> ''rl'' \<longrightarrow>
      phase_of_direction d = None)"
    by (simp add: phase_of_direction_def phase_dir_bids_par_def phase_section_default_def Let_def startswith_def)
  moreover
  have "phase_of_direction ''ap'' = Some ''j-''"
    by (simp add: phase_of_direction_def phase_dir_bids_par_def phase_section_default_def Let_def startswith_def)
  moreover
  have "phase_of_direction ''pa'' = Some ''j''"
    by (simp add: phase_of_direction_def phase_dir_bids_par_def phase_section_default_def Let_def startswith_def)
  moreover
  have "phase_of_direction ''lr'' = Some ''i-''"
    by (simp add: phase_of_direction_def phase_dir_bids_par_def phase_section_default_def Let_def startswith_def)
  moreover
  have "phase_of_direction ''rl'' = Some ''i''"
    by (simp add: phase_of_direction_def phase_dir_bids_par_def phase_section_default_def Let_def startswith_def)
  moreover
  have "(phase_of_direction (lower (strip g)) = Some c \<longrightarrow>
      phase_loop_3sites (Some g # rest) = Some c \<and> phase_section_default (Some g # rest) = c)"
    by (simp add: phase_of_direction_def phase_dir_bids_par_def phase_section_default_def Let_def startswith_def)
  moreover
  have "(phase_of_direction (lower (strip g)) = None \<longrightarrow>
      phase_loop_3sites (Some g # rest) = phase_loop_3sites rest \<and>
      phase_section_default (Some g # rest) = ''j-'')"
    by (simp add: phase_of_direction_def phase_dir_bids_par_def phase_section_default_def Let_def startswith_def)
  moreover
  have "phase_loop_3sites (None # rest) = phase_loop_3sites rest"
    by (simp add: phase_of_direction_def phase_dir_bids_par_def phase_section_default_def Let_def startswith_def)
  moreover
  have "phase_section_default (None # rest) = phase_section_default rest"
    by (simp add: phase_of_direction_def phase_dir_bids_par_def phase_section_default_def Let_def startswith_def)
  moreover
  have "((\<forall>m\<in>set ms. case m of None \<Rightarrow> True | Some g \<Rightarrow> phase_of_direction (lower (strip g)) = None) \<longrightarrow>
      phase_loop_3sites ms = None \<and> phase_section_default ms = ''j-'')"
    using phase_loop_3sites_None[of ms] phase_section_default_None[of ms] by blast
  moreover
  have "phase_dir_bids_par None = ''j-''"
    by (simp add: phase_of_direction_def phase_dir_bids_par_def phase_section_default_def Let_def startswith_def)
  moreover
  have "(contains ''ap'' (lower g) \<or> contains ''anterior'' (lower g) \<longrightarrow> phase_dir_bids_par (Some g) = ''j-'')"
    by (simp add: phase_of_direction_def phase_dir_bids_par_def phase_section_default_def Let_def startswith_def)
  moreover
  have "(\<not> contains ''ap'' (lower g) \<and> \<not> contains ''anterior'' (lower g) \<and>
    (contains ''pa'' (lower g) \<or> contains ''posterior'' (lower g)) \<longrightarrow> phase_dir_bids_par (Some g) = ''j'')"
    by (simp add: phase_of_direction_def phase_dir_bids_par_def phase_section_default_def Let_def startswith_def)
  moreover
  have "(\<not> contains ''ap'' (lower g) \<and> \<not> contains ''anterior'' (lower g) \<and>
    \<not> contains ''pa'' (lower g) \<and> \<not> contains ''posterior'' (lower g) \<and>
    (contains ''lr'' (lower g) \<or> contains ''left'' (lower g)) \<longrightarrow> phase_dir_bids_par (Some g) = ''i-'')"
    by (simp add: phase_of_direction_def phase_dir_bids_par_def phase_section_default_def Let_def startswith_def)
  moreover
  have "(\<not> contains ''ap'' (lower g) \<and> \<not> contains ''anterior'' (lower g) \<and>
    \<not> contains ''pa'' (lower g) \<and> \<not> contains ''posterior'' (lower g) \<and>
    \<not> contains ''lr'' (lower g) \<and> \<not> contains ''left'' (lower g) \<and>
    (contains ''rl'' (lower g) \<or> contains ''right'' (lower g)) \<longrightarrow> phase_dir_bids_par (Some g) = ''i'')"
    by (simp add: phase_of_direction_def phase_dir_bids_par_def phase_section_default_def Let_def startswith_def)
  moreover
  have "(\<not> contains ''ap'' (lower g) \<and> \<not> contains ''anterior'' (lower g) \<and>
    \<not> contains ''pa'' (lower g) \<and> \<not> contains ''posterior'' (lower g) \<and>
    \<not> contains ''lr'' (lower g) \<and> \<not> contains ''left'' (lower g) \<and>
    \<not> contains ''rl'' (lower g) \<and> \<not> contains ''right'' (lower g) \<longrightarrow> phase_dir_bids_par (Some g) = ''j-'')"
    by (simp add: phase_of_direction_def phase_dir_bids_par_def phase_section_default_def Let_def startswith_def)
  ultimately show ?thesis by (intro conjI)
qed


theorem phase_encoding_direction_witness:
  "phase_of_direction ''anterior-posterior'' = Some ''j-'' \<and>
   phase_of_direction ''posterior-anterior'' = Some ''j'' \<and>
   phase_of_direction ''left-right'' = Some ''i-'' \<and>
   phase_of_direction ''right-left'' = Some ''i'' \<and>
   phase_of_direction ''oblique'' = None \<and>
   phase_loop_3sites [Some ''Oblique''] = None \<and>
   phase_section_default [Some ''Oblique''] = ''j-'' \<and>
   phase_dir_bids_par (Some ''Posterior'') = ''j''"
proof -
  have h1: "contains ''anterior-posterior'' ''anterior-posterior''" by code_simp
  have h2: "\<not> contains ''anterior-posterior'' ''posterior-anterior'' \<and> ''posterior-anterior'' \<noteq> ''ap'' \<and>
      contains ''posterior-anterior'' ''posterior-anterior''" by code_simp
  have h3: "\<not> contains ''anterior-posterior'' ''left-right'' \<and> ''left-right'' \<noteq> ''ap'' \<and>
      \<not> contains ''posterior-anterior'' ''left-right'' \<and> ''left-right'' \<noteq> ''pa'' \<and>
      contains ''left-right'' ''left-right''" by code_simp
  have h4: "\<not> contains ''anterior-posterior'' ''right-left'' \<and> ''right-left'' \<noteq> ''ap'' \<and>
      \<not> contains ''posterior-anterior'' ''right-left'' \<and> ''right-left'' \<noteq> ''pa'' \<and>
      \<not> contains ''left-right'' ''right-left'' \<and> ''right-left'' \<noteq> ''lr'' \<and>
      contains ''right-left'' ''right-left''" by code_simp
  have h5: "\<not> contains ''anterior-posterior'' ''oblique'' \<and> ''oblique'' \<noteq> ''ap'' \<and>
      \<not> contains ''posterior-anterior'' ''oblique'' \<and> ''oblique'' \<noteq> ''pa'' \<and>
      \<not> contains ''left-right'' ''oblique'' \<and> ''oblique'' \<noteq> ''lr'' \<and>
      \<not> contains ''right-left'' ''oblique'' \<and> ''oblique'' \<noteq> ''rl''" by code_simp
  have h6: "lower (strip ''Oblique'') = ''oblique''" by code_simp
  have h7: "\<not> contains ''ap'' (lower ''Posterior'') \<and> \<not> contains ''anterior'' (lower ''Posterior'') \<and>
      (contains ''pa'' (lower ''Posterior'') \<or> contains ''posterior'' (lower ''Posterior''))" by code_simp
  have w1: "phase_of_direction ''anterior-posterior'' = Some ''j-''"
    by (rule phase_encoding_direction[of "''anterior-posterior''", THEN conjunct1, THEN mp, OF h1])
  have w2: "phase_of_direction ''posterior-anterior'' = Some ''j''"
    by (rule phase_encoding_direction[of "''posterior-anterior''", THEN conjunct2, THEN conjunct1, THEN mp, OF h2])
  have w3: "phase_of_direction ''left-right'' = Some ''i-''"
    by (rule phase_encoding_direction[of "''left-right''", THEN conjunct2, THEN conjunct2, THEN conjunct1, THEN mp, OF h3])
  have w4: "phase_of_direction ''right-left'' = Some ''i''"
    by (rule phase_encoding_direction[of "''right-left''", THEN conjunct2, THEN conjunct2, THEN conjunct2, THEN conjunct1, THEN mp, OF h4])
  have w5: "phase_of_direction ''oblique'' = None"
    by (rule phase_encoding_direction[of "''oblique''", THEN conjunct2, THEN conjunct2, THEN conjunct2, THEN conjunct2, THEN conjunct1, THEN mp, OF h5])
  have h8: "phase_of_direction (lower (strip ''Oblique'')) = None" using w5 h6 by simp
  have w6: "phase_loop_3sites [Some ''Oblique''] = None \<and> phase_section_default [Some ''Oblique''] = ''j-''"
    using phase_encoding_direction[of _ "''Oblique''" _ "[]", THEN conjunct2, THEN conjunct2, THEN conjunct2, THEN conjunct2, THEN conjunct2, THEN conjunct2, THEN conjunct2, THEN conjunct2, THEN conjunct2, THEN conjunct2, THEN conjunct1, THEN mp, OF h8] by simp
  have w7: "phase_dir_bids_par (Some ''Posterior'') = ''j''"
    by (rule phase_encoding_direction[of _ "''Posterior''", THEN conjunct2, THEN conjunct2, THEN conjunct2, THEN conjunct2, THEN conjunct2, THEN conjunct2, THEN conjunct2, THEN conjunct2, THEN conjunct2, THEN conjunct2, THEN conjunct2, THEN conjunct2, THEN conjunct2, THEN conjunct2, THEN conjunct2, THEN conjunct2, THEN conjunct1, THEN mp, OF h7])
  show ?thesis using w1 w2 w3 w4 w5 w6 w7 by (intro conjI) simp_all
qed

section \<open>Theorems: effective echo spacing\<close>

lemma wfs_loop_3sites_frame:
  "k \<noteq> ''WaterFatShift'' \<Longrightarrow> map_of (snd (wfs_loop_3sites pf ms w bf)) k = map_of bf k"
  by (induction pf ms w bf rule: wfs_loop_3sites.induct)
     (simp_all add: map_of_dict_set split: option.splits)

lemma recon_loop_3sites_frame:
  "k \<noteq> ''ReconMatrixPE'' \<Longrightarrow> k \<noteq> ''ReconMatrixFE'' \<Longrightarrow>
   map_of (snd (recon_loop_3sites pf ms bf)) k = map_of bf k"
  by (induction pf ms bf rule: recon_loop_3sites.induct)
     (simp_all add: map_of_dict_set split: option.splits)

lemma wfs_loop_3sites_None: "\<forall>m\<in>set ms. m = None \<Longrightarrow> wfs_loop_3sites pf ms w bf = (w, bf)"
  by (induction pf ms w bf rule: wfs_loop_3sites.induct) simp_all

lemma recon_loop_3sites_None: "\<forall>m\<in>set ms. m = None \<Longrightarrow> recon_loop_3sites pf ms bf = (None, bf)"
  by (induction pf ms bf rule: recon_loop_3sites.induct) simp_all

lemma ees_calc_3sites_pos:
  "0 < wfs \<Longrightarrow> 0 < recon \<Longrightarrow>
   map_of (ees_calc_3sites site (Some wfs) (Some recon) bf) ''EffectiveEchoSpacing'' =
     Some (JFloat (py_round 8 (1 / ((434215 / 1000 / wfs) * of_int recon))))"
  by (simp add: ees_calc_3sites_def py_div_def map_of_dict_set)

lemma ees_calc_3sites_missing:
  "w = None \<or> r = None \<Longrightarrow> ees_calc_3sites site w r bf = bf"
  by (auto simp: ees_calc_3sites_def split: option.splits)

lemma ees_calc_targeted_pos:
  "0 < wfs \<Longrightarrow> 0 < recon \<Longrightarrow>
   ees_calc_targeted (Some wfs) (Some recon) = py_round 8 (1 / ((434215 / 1000 / wfs) * of_int recon))"
  by (simp add: ees_calc_targeted_def py_div_def)

lemma ees_calc_targeted_missing:
  "w = None \<or> r = None \<Longrightarrow> ees_calc_targeted w r = 5 / 10000"
  by (auto simp: ees_calc_targeted_def split: option.splits)

lemma example_wfs_loop:
  "wfs_loop_3sites decimal_float [Some ''10.0''] None [] = (Some 10, [(''WaterFatShift'', JFloat 10)])"
  by code_simp

lemma example_recon_loop:
  "recon_loop_3sites decimal_float [None, Some (''80'', ''80'')] [(''WaterFatShift'', JFloat 10)] =
   (Some 80, [(''WaterFatShift'', JFloat 10), (''ReconMatrixPE'', JInt 80), (''ReconMatrixFE'', JInt 80)])"
  by code_simp

lemma example_targeted_inputs:
  "wfs_targeted decimal_float [Some ''10.0''] = Some 10"
  "recon_targeted decimal_float [None, Some (''80'', ''80'')] = Some 80"
  by code_simp+

lemma example_ees_value: "py_round 8 (1 / ((434215 / 1000 / 10) * 80)) = 28788 / 100000000"
  by code_simp

text \<open>
  C3. In the multi-site extractor, when the loop over the water-fat-shift patterns ends
  with a positive value \<open>wfs\<close> and the loop over the reconstruction patterns ends with a
  positive phase-encode dimension \<open>reconY\<close>, the section stores
  \<open>round(1 / ((434.215 / wfs) * reconY), 8)\<close> under EffectiveEchoSpacing; when either
  variable is still \<open>None\<close> the section leaves the key as it was, that is, absent. When
  no pattern of a list matches, its variable is \<open>None\<close>. In the targeted extractor the
  same two positive inputs give the same value and a missing input gives the fallback
  0.0005. For \<open>wfs = 10.0\<close> and \<open>reconY = 80\<close> the value is
  \<open>round(1/((434.215/10.0)*80), 8)\<close> in both.
\<close>

theorem effective_echo_spacing:
  "(wfs_loop_3sites pf wm None bf = (Some wfs, f1) \<and> 0 < wfs \<and>
    recon_loop_3sites pf rm f1 = (Some recon, f2) \<and> 0 < recon \<longrightarrow>
      map_of (ees_section_3sites pf site wm rm bf) ''EffectiveEchoSpacing'' =
        Some (JFloat (py_round 8 (1 / ((434215 / 1000 / wfs) * of_int recon))))) \<and>
   (fst (wfs_loop_3sites pf wm None bf) = None \<or>
    fst (recon_loop_3sites pf rm (snd (wfs_loop_3sites pf wm None bf))) = None \<longrightarrow>
      map_of (ees_section_3sites pf site wm rm bf) ''EffectiveEchoSpacing'' =
        map_of bf ''EffectiveEchoSpacing'') \<and>
   ((\<forall>m\<in>set wm. m = None) \<longrightarrow> fst (wfs_loop_3sites pf wm None bf) = None \<and> wfs_targeted pf wm = None) \<and>
   ((\<forall>m\<in>set rm. m = None) \<longrightarrow> fst (recon_loop_3sites pf rm f1) = None \<and> recon_targeted pf rm = None) \<and>
   (wfs_targeted pf wm = Some wfs \<and> 0 < wfs \<and> recon_targeted pf rm = Some recon \<and> 0 < recon \<longrightarrow>
      map_of (ees_section_targeted pf wm rm bf) ''EffectiveEchoSpacing'' =
        Some (JFloat (py_round 8 (1 / ((434215 / 1000 / wfs) * of_int recon))))) \<and>
   (wfs_targeted pf wm = None \<or> recon_targeted pf rm = None \<longrightarrow>
      map_of (ees_section_targeted pf wm rm bf) ''EffectiveEchoSpacing'' = Some (JFloat (5 / 10000))) \<and>
   map_of (ees_calc_3sites site (Some 10) (Some 80) bf) ''EffectiveEchoSpacing'' =
     Some (JFloat (py_round 8 (1 / ((434215 / 1000 / 10) * 80)))) \<and>
   ees_calc_targeted (Some 10) (Some 80) = py_round 8 (1 / ((434215 / 1000 / 10) * 80))"
proof -
  have c1: "(wfs_loop_3sites pf wm None bf = (Some wfs, f1) \<and> 0 < wfs \<and>
    recon_loop_3sites pf rm f1 = (Some recon, f2) \<and> 0 < recon \<longrightarrow>
      map_of (ees_section_3sites pf site wm rm bf) ''EffectiveEchoSpacing'' =
        Some (JFloat (py_round 8 (1 / ((434215 / 1000 / wfs) * of_int recon)))))"
    by (simp add: ees_section_3sites_def ees_calc_3sites_pos)
  have c2: "(fst (wfs_loop_3sites pf wm None bf) = None \<or>
    fst (recon_loop_3sites pf rm (snd (wfs_loop_3sites pf wm None bf))) = None \<longrightarrow>
      map_of (ees_section_3sites pf site wm rm bf) ''EffectiveEchoSpacing'' =
        map_of bf ''EffectiveEchoSpacing'')"
  proof
    assume a: "fst (wfs_loop_3sites pf wm None bf) = None \<or>
      fst (recon_loop_3sites pf rm (snd (wfs_loop_3sites pf wm None bf))) = None"
    obtain w g1 where w: "wfs_loop_3sites pf wm None bf = (w, g1)" by (cases "wfs_loop_3sites pf wm None bf")
    obtain r g2 where r: "recon_loop_3sites pf rm g1 = (r, g2)" by (cases "recon_loop_3sites pf rm g1")
    from a w r have "w = None \<or> r = None" by simp
    then have "ees_section_3sites pf site wm rm bf = g2"
      by (simp add: ees_section_3sites_def w r ees_calc_3sites_missing)
    moreover have "map_of g2 ''EffectiveEchoSpacing'' = map_of g1 ''EffectiveEchoSpacing''"
      using recon_loop_3sites_frame[of "''EffectiveEchoSpacing''" pf rm g1] r by simp
    moreover have "map_of g1 ''EffectiveEchoSpacing'' = map_of bf ''EffectiveEchoSpacing''"
      using wfs_loop_3sites_frame[of "''EffectiveEchoSpacing''" pf wm None bf] w by simp
    ultimately show "map_of (ees_section_3sites pf site wm rm bf) ''EffectiveEchoSpacing'' =
        map_of bf ''EffectiveEchoSpacing''" by simp
  qed
  have c3: "((\<forall>m\<in>set wm. m = None) \<longrightarrow> fst (wfs_loop_3sites pf wm None bf) = None \<and> wfs_targeted pf wm = None)"
    by (simp add: wfs_loop_3sites_None wfs_targeted_def first_match_None)
  have c4: "((\<forall>m\<in>set rm. m = None) \<longrightarrow> fst (recon_loop_3sites pf rm f1) = None \<and> recon_targeted pf rm = None)"
    by (simp add: recon_loop_3sites_None recon_targeted_def first_match_None)
  have c5: "(wfs_targeted pf wm = Some wfs \<and> 0 < wfs \<and> recon_targeted pf rm = Some recon \<and> 0 < recon \<longrightarrow>
      map_of (ees_section_targeted pf wm rm bf) ''EffectiveEchoSpacing'' =
        Some (JFloat (py_round 8 (1 / ((434215 / 1000 / wfs) * of_int recon)))))"
    by (simp add: ees_section_targeted_def map_of_dict_set ees_calc_targeted_pos)
  have c6: "(wfs_targeted pf wm = None \<or> recon_targeted pf rm = None \<longrightarrow>
      map_of (ees_section_targeted pf wm rm bf) ''EffectiveEchoSpacing'' = Some (JFloat (5 / 10000)))"
    using ees_calc_targeted_missing[of "wfs_targeted pf wm" "recon_targeted pf rm"]
    by (simp add: ees_section_targeted_def map_of_dict_set)
  have c7: "map_of (ees_calc_3sites site (Some 10) (Some 80) bf) ''EffectiveEchoSpacing'' =
     Some (JFloat (py_round 8 (1 / ((434215 / 1000 / 10) * 80))))"
    using ees_calc_3sites_pos[of 10 80 site bf] by simp
  have c8: "ees_calc_targeted (Some 10) (Some 80) = py_round 8 (1 / ((434215 / 1000 / 10) * 80))"
    using ees_calc_targeted_pos[of 10 80] by simp
  show ?thesis using c1 c2 c3 c4 c5 c6 c7 c8 by (intro conjI)
qed

theorem effective_echo_spacing_witness:
  "map_of (ees_section_3sites decimal_float ''Groningen'' [Some ''10.0''] [None, Some (''80'', ''80'')] [])
     ''EffectiveEchoSpacing'' = Some (JFloat (28788 / 100000000)) \<and>
   map_of (ees_section_targeted decimal_float [Some ''10.0''] [None, Some (''80'', ''80'')] [])
     ''EffectiveEchoSpacing'' = Some (JFloat (28788 / 100000000)) \<and>
   map_of (ees_section_3sites decimal_float ''Groningen'' [None, None] [None, Some (''80'', ''80'')] [])
     ''EffectiveEchoSpacing'' = None \<and>
   map_of (ees_section_targeted decimal_float [None, None] [None, Some (''80'', ''80'')] [])
     ''EffectiveEchoSpacing'' = Some (JFloat (5 / 10000))"
proof -
  note t = effective_echo_spacing[where pf = decimal_float and site = "''Groningen''" and bf = "[]"
      and rm = "[None, Some (''80'', ''80'')]"]
  have h1: "wfs_loop_3sites decimal_float [Some ''10.0''] None [] = (Some 10, [(''WaterFatShift'', JFloat 10)]) \<and>
      (0::rat) < 10 \<and>
      recon_loop_3sites decimal_float [None, Some (''80'', ''80'')] [(''WaterFatShift'', JFloat 10)] =
        (Some 80, [(''WaterFatShift'', JFloat 10), (''ReconMatrixPE'', JInt 80), (''ReconMatrixFE'', JInt 80)]) \<and>
      (0::int) < 80"
    using example_wfs_loop example_recon_loop by simp
  have w1: "map_of (ees_section_3sites decimal_float ''Groningen'' [Some ''10.0''] [None, Some (''80'', ''80'')] [])
     ''EffectiveEchoSpacing'' = Some (JFloat (28788 / 100000000))"
    using t[where wm = "[Some ''10.0'']", THEN conjunct1, THEN mp, OF h1] example_ees_value by simp
  have h2: "wfs_targeted decimal_float [Some ''10.0''] = Some 10 \<and> (0::rat) < 10 \<and>
      recon_targeted decimal_float [None, Some (''80'', ''80'')] = Some 80 \<and> (0::int) < 80"
    using example_targeted_inputs by simp
  have w2: "map_of (ees_section_targeted decimal_float [Some ''10.0''] [None, Some (''80'', ''80'')] [])
     ''EffectiveEchoSpacing'' = Some (JFloat (28788 / 100000000))"
    using t[where wm = "[Some ''10.0'']", THEN conjunct2, THEN conjunct2, THEN conjunct2, THEN conjunct2, THEN conjunct1, THEN mp, OF h2] example_ees_value by simp
  have h3: "\<forall>m\<in>set [None, None :: string option]. m = None" by simp
  from t[where wm = "[None, None]", THEN conjunct2, THEN conjunct2, THEN conjunct1, THEN mp, OF h3]
  have n: "fst (wfs_loop_3sites decimal_float [None, None] None []) = None"
    "wfs_targeted decimal_float [None, None] = None" by simp_all
  have w3: "map_of (ees_section_3sites decimal_float ''Groningen'' [None, None] [None, Some (''80'', ''80'')] [])
     ''EffectiveEchoSpacing'' = None"
    using t[where wm = "[None, None]", THEN conjunct2, THEN conjunct1, THEN mp, OF disjI1[OF n(1)]] by simp
  have w4: "map_of (ees_section_targeted decimal_float [None, None] [None, Some (''80'', ''80'')] [])
     ''EffectiveEchoSpacing'' = Some (JFloat (5 / 10000))"
    using t[where wm = "[None, None]", THEN conjunct2, THEN conjunct2, THEN conjunct2, THEN conjunct2, THEN conjunct2, THEN conjunct1, THEN mp, OF disjI1[OF n(2)]] by simp
  show ?thesis using w1 w2 w3 w4 by (intro conjI)
qed

end
